theory Spec2Isabelle
  imports Complex_Main
begin

unbundle bit_operations_syntax

section \<open>Numbers and helpers shared by the two controls\<close>

text \<open>
  The two components compute on JavaScript numbers. They are modelled as mathematical
  numbers: a \<open>number\<close> that the code keeps integral (it is assigned the result of
  \<open>Math.round\<close>) is an \<open>int\<close>, every other one is a \<open>real\<close>. Rounding error and
  the infinities of IEEE arithmetic are outside the model; where the code divides, the
  theorems assume a divisor that is not zero. A value that comes from outside untyped
  (the value written into the slider, the \<open>deltaY\<close> of a gesture sample) may also be
  \<open>NaN\<close> or absent, and the model keeps these cases.
\<close>

definition Math_round :: "real \<Rightarrow> int" where
  \<comment> \<open>\<open>Math.round\<close>: the nearest integer, a tie going up.\<close>
  "Math_round v = \<lfloor>v + 1 / 2\<rfloor>"

definition clamp :: "real \<Rightarrow> real \<Rightarrow> real \<Rightarrow> real" where
  \<comment> \<open>Modelled from the spec: \<open>clamp\<close> of \<open>util/util\<close> is imported by range.ts and is not
      among the sources; the spec says of \<open>clamp(lo, n, hi)\<close> that it clamps \<open>n\<close> to
      the interval from \<open>lo\<close> to \<open>hi\<close>.\<close>
  "clamp lo n hi = max lo (min n hi)"


section \<open>The slider (range.ts)\<close>

subsection \<open>Data\<close>

text \<open>
  The private fields of the two classes start with an underscore, which an Isabelle
  name cannot: field \<open>_min\<close> of \<open>Range\<close> is \<open>r_min\<close> here, field \<open>_ratio\<close> of
  \<open>RangeKnob\<close> is \<open>k_ratio\<close>, and so on for the others.
\<close>

record RangeKnob =
  k_ratio :: real
  k_val :: int
  k_x :: real \<comment> \<open>the percentage \<open>p\<close> of the string \<open>p%\<close>\<close>
  pressed :: bool
  upper :: bool

text \<open>
  A value crossing the component's boundary (\<open>value: any\<close>). A string is kept as the number
  it converts to, \<open>None\<close> when that is \<open>NaN\<close>: the conversion is all the code does with it.
  \<open>Obj lo up\<close> is an object with the properties \<open>lower\<close> and \<open>upper\<close>.
\<close>

datatype jsval = Undefined | Null | Num real | NaN | Str "real option" | Obj jsval jsval

text \<open>
  A method of \<open>Range\<close> either returns or lets a \<open>TypeError\<close> escape (a property read
  on \<open>undefined\<close>). An exception undoes nothing, so both outcomes carry the component as
  the method left it.
\<close>

datatype 'a outcome = Returned 'a | Threw 'a

definition final :: "'a outcome \<Rightarrow> 'a" where
  "final m = (case m of Returned a \<Rightarrow> a | Threw a \<Rightarrow> a)"


text \<open>The query list of knobs: the template always has the first handle, and the second
  one under \<open>*ngIf="_dual"\<close>. With one knob, \<open>first\<close> and \<open>last\<close> are the same object.\<close>

datatype knobs = Single RangeKnob | Two RangeKnob RangeKnob

datatype which = First | Last

fun knobs_first :: "knobs \<Rightarrow> RangeKnob" where
  "knobs_first (Single k) = k"
| "knobs_first (Two a b) = a"

fun knobs_last :: "knobs \<Rightarrow> RangeKnob" where
  "knobs_last (Single k) = k"
| "knobs_last (Two a b) = b"

fun upd_first :: "(RangeKnob \<Rightarrow> RangeKnob) \<Rightarrow> knobs \<Rightarrow> knobs" where
  "upd_first f (Single k) = Single (f k)"
| "upd_first f (Two a b) = Two (f a) b"

fun upd_last :: "(RangeKnob \<Rightarrow> RangeKnob) \<Rightarrow> knobs \<Rightarrow> knobs" where
  "upd_last f (Single k) = Single (f k)"
| "upd_last f (Two a b) = Two a (f b)"



record Coordinates =
  coord_x :: real
  coord_y :: real

record ClientRect =
  rect_left :: real
  rect_right :: real
  rect_width :: real
  rect_xOffset :: real

record tick =
  t_ratio :: real
  t_left :: real
  t_active :: bool

datatype css_len = Unset | Pct real \<comment> \<open>the empty string, and \<open>p%\<close>\<close>

datatype listener = TouchMove | TouchEnd | MouseMove | MouseUp



datatype range_effect =
    PreventDefault | StopPropagation
  | OnChange jsval \<comment> \<open>the change callback is invoked\<close>
  | IonChange \<comment> \<open>\<open>ionChange.emit(this)\<close>\<close>

record Range =
  r_dual :: bool
  r_pressed :: bool
  r_active :: "which option"
  r_start :: "Coordinates option"
  r_rect :: "ClientRect option"
  r_ticks :: "tick list option"
  r_barL :: css_len
  r_barR :: css_len
  r_min :: int
  r_max :: int
  r_step :: int
  r_snaps :: bool
  r_removes :: "listener list"
  r_mouseRemove :: bool \<comment> \<open>the mousedown listener is still installed\<close>
  r_value :: jsval
  r_knobs :: "knobs option" \<comment> \<open>\<open>None\<close> before the view is initialised\<close>
  r_out :: "range_effect list" \<comment> \<open>calls that leave the component, oldest first\<close>

subsection \<open>Value mapping\<close>

definition ratioToValue :: "Range \<Rightarrow> real \<Rightarrow> int" where
  "ratioToValue r ratio =
     (let ratio' = Math_round (real_of_int (r_max r - r_min r) * ratio + real_of_int (r_min r))
      in Math_round (real_of_int ratio' / real_of_int (r_step r)) * r_step r)"

definition valueToRatio :: "Range \<Rightarrow> real \<Rightarrow> real" where
  "valueToRatio r v =
     (let v' = Math_round (clamp (real_of_int (r_min r)) v (real_of_int (r_max r))
                             / real_of_int (r_step r)) * r_step r
      in (real_of_int v' - real_of_int (r_min r)) / real_of_int (r_max r - r_min r))"

text \<open>The mapping in the spec's words, to compare with the code's.\<close>

definition snap_to_step :: "int \<Rightarrow> real \<Rightarrow> int" where
  "snap_to_step step v = Math_round (v / real_of_int step) * step"

definition spec_ratioToValue :: "int \<Rightarrow> int \<Rightarrow> int \<Rightarrow> real \<Rightarrow> int" where
  "spec_ratioToValue mn mx step ratio =
     snap_to_step step (real_of_int (Math_round (real_of_int (mx - mn) * ratio + real_of_int mn)))"

definition spec_valueToRatio :: "int \<Rightarrow> int \<Rightarrow> int \<Rightarrow> real \<Rightarrow> real" where
  "spec_valueToRatio mn mx step v =
     (real_of_int (snap_to_step step (clamp (real_of_int mn) v (real_of_int mx))) - real_of_int mn)
       / (real_of_int mx - real_of_int mn)"

subsection \<open>The knob\<close>

definition set_ratio :: "Range \<Rightarrow> real \<Rightarrow> RangeKnob \<Rightarrow> RangeKnob" where
  "set_ratio r ratio k =
     (let k1 = k\<lparr>k_ratio := clamp 0 ratio 1\<rparr>;
          k2 = k1\<lparr>k_val := ratioToValue r (k_ratio k1)\<rparr>
      in if r_snaps r then k2\<lparr>k_ratio := valueToRatio r (real_of_int (k_val k2))\<rparr> else k2)"

definition isString :: "jsval \<Rightarrow> bool" where
  \<comment> \<open>Modelled from the spec: \<open>isString\<close>, \<open>isNumber\<close> and \<open>isPresent\<close> of \<open>util/util\<close> are
      imported by range.ts and are not among the sources, and the spec does not describe
      them; they test what their names say (\<open>typeof\<close> is \<open>string\<close>, \<open>typeof\<close> is
      \<open>number\<close>, neither \<open>undefined\<close> nor \<open>null\<close>).\<close>
  "isString v = (case v of Str c \<Rightarrow> True | _ \<Rightarrow> False)"

definition isNumber :: "jsval \<Rightarrow> bool" where
  \<comment> \<open>Modelled from the spec: see \<open>isString\<close>; \<open>typeof\<close> is \<open>number\<close>, which \<open>NaN\<close> is too.\<close>
  "isNumber v = (case v of Num q \<Rightarrow> True | NaN \<Rightarrow> True | _ \<Rightarrow> False)"

definition isPresent :: "jsval \<Rightarrow> bool" where
  \<comment> \<open>Modelled from the spec: see \<open>isString\<close>; the spec speaks of a value that is supplied.\<close>
  "isPresent v = (v \<noteq> Undefined \<and> v \<noteq> Null)"

definition round_string :: "jsval \<Rightarrow> jsval" where
  \<comment> \<open>\<open>Math.round\<close> of a string: of the number it converts to\<close>
  "round_string v =
     (case v of Str (Some q) \<Rightarrow> Num (real_of_int (Math_round q)) | Str None \<Rightarrow> NaN | _ \<Rightarrow> v)"

definition isNaN :: "jsval \<Rightarrow> bool" where
  \<comment> \<open>the global \<open>isNaN\<close>, which the setter calls on numbers only\<close>
  "isNaN v = (v = NaN)"

definition set_value :: "Range \<Rightarrow> jsval \<Rightarrow> RangeKnob \<Rightarrow> RangeKnob" where
  "set_value r val k =
     (let val1 = (if isString val then round_string val else val)
      in if isNumber val1 \<and> \<not> isNaN val1 then
           (case val1 of
              Num q \<Rightarrow>
                (let k1 = k\<lparr>k_ratio := valueToRatio r q\<rparr>
                 in k1\<lparr>k_val := ratioToValue r (k_ratio k1)\<rparr>)
            | _ \<Rightarrow> k)
         else k)"

definition position :: "RangeKnob \<Rightarrow> RangeKnob" where
  "position k = k\<lparr>k_x := k_ratio k * 100\<rparr>"

subsection \<open>The range\<close>

definition Range_ratio :: "Range \<Rightarrow> knobs \<Rightarrow> real" where
  \<comment> \<open>the getter \<open>ratio\<close> of \<open>Range\<close>\<close>
  "Range_ratio r ks =
     (if r_dual r then min (k_ratio (knobs_first ks)) (k_ratio (knobs_last ks))
      else k_ratio (knobs_first ks))"

definition ratioUpper :: "Range \<Rightarrow> knobs \<Rightarrow> real option" where
  "ratioUpper r ks =
     (if r_dual r then Some (max (k_ratio (knobs_first ks)) (k_ratio (knobs_last ks)))
      else None)"

definition updateTicks :: "Range \<Rightarrow> Range outcome" where
  "updateTicks r =
     (if r_snaps r then
        (case r_knobs r of
           None \<Rightarrow> Threw r
         | Some ks \<Rightarrow>
             (let ratio = Range_ratio r ks
              in case r_ticks r of
                   None \<Rightarrow> Threw r
                 | Some ts \<Rightarrow>
                     (if r_dual r then
                        (let upperRatio = (case ratioUpper r ks of Some u \<Rightarrow> u | None \<Rightarrow> 0)
                         in Returned (r\<lparr>r_ticks := Some (map (\<lambda>t.
                              t\<lparr>t_active := (t_ratio t \<ge> ratio \<and> t_ratio t \<le> upperRatio)\<rparr>) ts)\<rparr>))
                      else
                        Returned (r\<lparr>r_ticks := Some (map (\<lambda>t.
                          t\<lparr>t_active := (t_ratio t \<le> ratio)\<rparr>) ts)\<rparr>))))
      else Returned r)"

definition updateBar :: "Range \<Rightarrow> Range outcome" where
  "updateBar r =
     (case r_knobs r of
        None \<Rightarrow> Threw r
      | Some ks \<Rightarrow>
          (let firstRatio = k_ratio (knobs_first ks)
           in updateTicks
                (if r_dual r then
                   (let lastRatio = k_ratio (knobs_last ks)
                    in r\<lparr>r_barL := Pct (min firstRatio lastRatio * 100),
                         r_barR := Pct (100 - max firstRatio lastRatio * 100)\<rparr>)
                 else r\<lparr>r_barL := Unset, r_barR := Pct (100 - firstRatio * 100)\<rparr>)))"







definition prop_lower :: "jsval \<Rightarrow> jsval" where
  \<comment> \<open>\<open>val.lower\<close>; a number or a string has no such property\<close>
  "prop_lower v = (case v of Obj lo up \<Rightarrow> lo | _ \<Rightarrow> Undefined)"

definition prop_upper :: "jsval \<Rightarrow> jsval" where
  "prop_upper v = (case v of Obj lo up \<Rightarrow> up | _ \<Rightarrow> Undefined)"

definition writeValue :: "jsval \<Rightarrow> Range \<Rightarrow> Range outcome" where
  "writeValue val r =
     (if isPresent val then
        (let r1 = r\<lparr>r_value := val\<rparr>
         in case r_knobs r1 of
              None \<Rightarrow> Returned r1
            | Some ks \<Rightarrow>
                (let ks1 = (if r_dual r1 then
                              upd_last position
                                (upd_last (set_value r1 (prop_upper val))
                                   (upd_first (set_value r1 (prop_lower val)) ks))
                            else upd_first (set_value r1 val) ks);
                     ks2 = upd_first position ks1
                 in updateBar (r1\<lparr>r_knobs := Some ks2\<rparr>)))
      else Returned r)"

definition default_range :: Range where
  \<comment> \<open>the field initialisers of the class, before the view exists\<close>
  "default_range =
     \<lparr>r_dual = False, r_pressed = False, r_active = None, r_start = None, r_rect = None,
      r_ticks = None, r_barL = Unset, r_barR = Unset, r_min = 0, r_max = 100, r_step = 1,
      r_snaps = False, r_removes = [], r_mouseRemove = False, r_value = Undefined,
      r_knobs = None, r_out = []\<rparr>"

definition knob_at :: "real \<Rightarrow> int \<Rightarrow> bool \<Rightarrow> RangeKnob" where
  \<comment> \<open>a knob resting at a ratio, with the value it shows\<close>
  "knob_at q v up = \<lparr>k_ratio = q, k_val = v, k_x = q * 100, pressed = False, upper = up\<rparr>"


text \<open>
  The spec's scenario for the choice of the knob: the domain from 0 to 100 in steps of 1,
  two knobs, the first at ratio 0.1 and the second at ratio 0.9, and a press at ratio 0.3
  of a track that is 100 wide.
\<close>

definition example_dual :: Range where
  "example_dual =
     default_range\<lparr>r_dual := True,
       r_knobs := Some (Two (knob_at (1 / 10) 10 False) (knob_at (9 / 10) 90 True))\<rparr>"



definition example_half :: Range where
  \<comment> \<open>one knob, resting in the middle of the track\<close>
  "example_half = default_range\<lparr>r_knobs := Some (Single (knob_at (1 / 2) 50 False))\<rparr>"

definition numeric :: "jsval \<Rightarrow> real option" where
  \<comment> \<open>for the statements about \<open>writeValue\<close>: the number a value stands for, if it is a
      number other than \<open>NaN\<close> or a string that converts to one, which counts rounded\<close>
  "numeric v =
     (case v of
        Num q \<Rightarrow> Some q
      | Str (Some q) \<Rightarrow> Some (real_of_int (Math_round q))
      | _ \<Rightarrow> None)"

definition example_single :: Range where
  "example_single = default_range\<lparr>r_knobs := Some (Single (knob_at 0 0 False))\<rparr>"


section \<open>The refresher (refresher.tsx)\<close>

subsection \<open>Data\<close>

datatype RefresherState = Inactive | Pulling | Ready | Refreshing | Cancelling | Completing

fun bits :: "RefresherState \<Rightarrow> nat" where
  \<comment> \<open>the values of the enumeration, \<open>1 << 0\<close> to \<open>1 << 5\<close>\<close>
  "bits Inactive = push_bit 0 1"
| "bits Pulling = push_bit 1 1"
| "bits Ready = push_bit 2 1"
| "bits Refreshing = push_bit 3 1"
| "bits Cancelling = push_bit 4 1"
| "bits Completing = push_bit 5 1"

definition BUSY :: nat where
  "BUSY = bits Refreshing OR bits Cancelling OR bits Completing"

definition busy :: "RefresherState \<Rightarrow> bool" where
  \<comment> \<open>\<open>this.state & RefresherState._BUSY_\<close> as a condition\<close>
  "busy s = (bits s AND BUSY \<noteq> 0)"

datatype transform =
    TranslateY real \<comment> \<open>\<open>translateY(\<close>y\<open>px) translateZ(0px)\<close>\<close>
  | TranslateZ0 \<comment> \<open>\<open>translateZ(0px)\<close>\<close>

record css =
  css_transform :: transform
  transitionDuration :: string
  transitionDelay :: string
  overflow :: string

datatype refresher_event = IonStart | IonPull | IonRefresh

text \<open>
  What the component does to its surroundings, in order: an assignment to \<open>state\<close> (a
  \<open>@State()\<close> property, which the renderer watches), a write of the scroll element's style
  queued with \<open>Context.dom.write\<close>, an event emitted, and the event's \<open>preventDefault()\<close>.
\<close>

datatype effect =
    StateSet RefresherState
  | DomWrite css
  | Emit refresher_event
  | ScrollPrevented

record Refresher =
  appliedStyles :: bool
  didStart :: bool
  state :: RefresherState
  progress :: real
  pullMin :: real
  pullDelta :: real
  snapbackDuration :: string
  trace :: "effect list" \<comment> \<open>oldest first\<close>
  timers :: "nat list" \<comment> \<open>the handles of the pending timeouts of \<open>close\<close>\<close>
  next_handle :: nat \<comment> \<open>the handle \<open>setTimeout\<close> returns next\<close>

record gesture_detail =
  touches :: "nat option" \<comment> \<open>\<open>ev.touches.length\<close>, \<open>None\<close> for an event without touches\<close>
  deltaY :: "real option" \<comment> \<open>\<open>detail.deltaY\<close>: a number, \<open>None\<close> when it is \<open>NaN\<close> or absent\<close>

subsection \<open>Operations\<close>

definition set_state :: "RefresherState \<Rightarrow> Refresher \<Rightarrow> Refresher" where
  \<comment> \<open>\<open>this.state = s\<close>\<close>
  "set_state s r = r\<lparr>state := s, trace := trace r @ [StateSet s]\<rparr>"

definition emit :: "refresher_event \<Rightarrow> Refresher \<Rightarrow> Refresher" where
  "emit e r = r\<lparr>trace := trace r @ [Emit e]\<rparr>"

definition positive :: "real option \<Rightarrow> bool" where
  \<comment> \<open>\<open>y > 0\<close>, which is false of \<open>NaN\<close> and of \<open>undefined\<close>\<close>
  "positive y = (case y of Some v \<Rightarrow> v > 0 | None \<Rightarrow> False)"

definition not_above :: "real option \<Rightarrow> real \<Rightarrow> bool" where
  \<comment> \<open>\<open>y <= b\<close>, which is false of \<open>NaN\<close> and of \<open>undefined\<close>\<close>
  "not_above y b = (case y of Some v \<Rightarrow> v \<le> b | None \<Rightarrow> False)"

definition setCss :: "real option \<Rightarrow> string \<Rightarrow> bool \<Rightarrow> string \<Rightarrow> Refresher \<Rightarrow> Refresher" where
  "setCss y duration overflowVisible delay r =
     r\<lparr>appliedStyles := positive y,
       trace := trace r @
         [DomWrite \<lparr>css_transform =
                      (case y of Some v \<Rightarrow> if v > 0 then TranslateY v else TranslateZ0
                       | None \<Rightarrow> TranslateZ0),
                    transitionDuration = duration,
                    transitionDelay = delay,
                    overflow = (if overflowVisible then ''hidden'' else [])\<rparr>]\<rparr>"

definition multitouch :: "gesture_detail \<Rightarrow> bool" where
  \<comment> \<open>\<open>ev.touches && ev.touches.length > 1\<close>\<close>
  "multitouch d = (case touches d of None \<Rightarrow> False | Some n \<Rightarrow> n > 1)"

definition onStart :: "Refresher \<Rightarrow> Refresher" where
  "onStart r = set_state Inactive (r\<lparr>progress := 0\<rparr>)"

definition beginRefresh :: "Refresher \<Rightarrow> Refresher" where
  "beginRefresh r =
     emit IonRefresh (setCss (Some (pullMin r)) (snapbackDuration r) True [] (set_state Refreshing r))"

definition onMove_pulling :: "gesture_detail \<Rightarrow> Refresher \<Rightarrow> nat \<times> Refresher" where
  \<comment> \<open>\<open>onMove\<close> from \<open>ev.preventDefault()\<close> to its end; \<open>!deltaY\<close> holds of zero, of \<open>NaN\<close>
      and of \<open>undefined\<close>\<close>
  "onMove_pulling d r =
     (let r1 = r\<lparr>trace := trace r @ [ScrollPrevented]\<rparr>;
          r2 = setCss (deltaY d) ''0ms'' True [] r1
      in case deltaY d of
           None \<Rightarrow> (8, r2\<lparr>progress := 0\<rparr>)
         | Some y \<Rightarrow>
             if y = 0 then (8, r2\<lparr>progress := 0\<rparr>)
             else
               (let r3 = r2\<lparr>progress := y / pullMin r2\<rparr>;
                    r4 = (if \<not> didStart r3 then emit IonStart (r3\<lparr>didStart := True\<rparr>) else r3);
                    r5 = emit IonPull r4
                in if y < pullMin r5 then (2, set_state Pulling r5)
                   else if y > pullMin r5 + pullDelta r5 then (3, beginRefresh r5)
                   else (4, set_state Ready r5)))"

definition onMove :: "gesture_detail \<Rightarrow> real \<Rightarrow> Refresher \<Rightarrow> nat \<times> Refresher" where
  \<comment> \<open>the second argument is \<open>this.scrollEl.scrollTop\<close>, of the host's scroll element;
      the result is the number the method returns and the component it leaves\<close>
  "onMove d scrollTop r =
     (if multitouch d then (1, r)
      else if busy (state r) then (2, r)
      else if not_above (deltaY d) 0 then
        (let r1 = set_state Inactive (r\<lparr>progress := 0\<rparr>)
         in if appliedStyles r1 then (5, setCss (Some 0) [] False [] r1) else (6, r1))
      else if state r = Inactive then
        (if scrollTop > 0 then (7, r\<lparr>progress := 0\<rparr>)
         else onMove_pulling d (set_state Pulling r))
      else onMove_pulling d r)"

definition clearTimeout :: "nat \<Rightarrow> Refresher \<Rightarrow> Refresher" where
  "clearTimeout t r = r\<lparr>timers := removeAll t (timers r)\<rparr>"

definition close_callback :: "bool \<Rightarrow> nat \<Rightarrow> Refresher \<Rightarrow> Refresher" where
  \<comment> \<open>the function \<open>close(ev)\<close> inside the method \<open>close\<close>: the first argument tells whether
      it is called with an event, the second is the variable \<open>timer\<close> it closes over\<close>
  "close_callback ev timer r =
     (let r1 = (if ev then clearTimeout timer r else r);
          r2 = set_state Inactive r1;
          r3 = r2\<lparr>progress := 0, didStart := False\<rparr>
      in setCss (Some 0) ''0ms'' False [] r3)"

definition close :: "RefresherState \<Rightarrow> string \<Rightarrow> Refresher \<Rightarrow> Refresher" where
  \<comment> \<open>\<open>setTimeout(close.bind(this), 600)\<close> is the only registration of the callback: the
      one for the end of the transition is commented out in the source\<close>
  "close s delay r =
     (let timer = next_handle r;
          r1 = r\<lparr>timers := timers r @ [timer], next_handle := Suc (next_handle r)\<rparr>;
          r2 = set_state s r1
      in setCss (Some 0) [] True delay r2)"

definition complete_refresher :: "Refresher \<Rightarrow> Refresher" where
  \<comment> \<open>the method \<open>complete()\<close>\<close>
  "complete_refresher r = close Completing ''120ms'' r"

definition cancel :: "Refresher \<Rightarrow> Refresher" where
  "cancel r = close Cancelling [] r"

definition onEnd :: "Refresher \<Rightarrow> Refresher" where
  "onEnd r =
     (if state r = Ready then beginRefresh r
      else if state r = Pulling then cancel r
      else r)"

text \<open>
  What reaches the component while it closes. A pending timeout fires once, calling the
  callback without an argument. The end of the scroll element's transition has no
  listener in this component.
\<close>

datatype signal = TimerFired nat | TransitionFinished

fun deliver :: "signal \<Rightarrow> Refresher \<Rightarrow> Refresher" where
  "deliver (TimerFired t) r =
     (if t \<in> set (timers r) then close_callback False t (r\<lparr>timers := removeAll t (timers r)\<rparr>)
      else r)"
| "deliver TransitionFinished r = r"

definition neutral_css :: css where
  "neutral_css =
     \<lparr>css_transform = TranslateZ0, transitionDuration = ''0ms'', transitionDelay = [],
      overflow = []\<rparr>"

definition reset_done :: "Refresher \<Rightarrow> bool" where
  \<comment> \<open>the component as the terminal reset leaves it\<close>
  "reset_done r =
     (state r = Inactive \<and> progress r = 0 \<and> \<not> didStart r \<and> \<not> appliedStyles r \<and>
      trace r \<noteq> [] \<and> last (trace r) = DomWrite neutral_css)"

definition initial_refresher :: Refresher where
  \<comment> \<open>the field initialisers of the class\<close>
  "initial_refresher =
     \<lparr>appliedStyles = False, didStart = False, state = Inactive, progress = 0,
      pullMin = 60, pullDelta = 60, snapbackDuration = ''280ms'', trace = [], timers = [],
      next_handle = 0\<rparr>"

section \<open>Properties of the slider\<close>

lemma default_range_sel:
  "r_dual default_range = False" "r_pressed default_range = False" "r_active default_range = None"
  "r_start default_range = None" "r_rect default_range = None" "r_ticks default_range = None"
  "r_barL default_range = Unset" "r_barR default_range = Unset" "r_min default_range = 0"
  "r_max default_range = 100" "r_step default_range = 1" "r_snaps default_range = False"
  "r_removes default_range = []" "r_mouseRemove default_range = False"
  "r_value default_range = Undefined" "r_knobs default_range = None" "r_out default_range = []"
  by (simp_all add: default_range_def)

lemma knob_at_sel:
  "k_ratio (knob_at q v up) = q" "k_val (knob_at q v up) = v" "k_x (knob_at q v up) = q * 100"
  "pressed (knob_at q v up) = False" "upper (knob_at q v up) = up"
  by (simp_all add: knob_at_def)

subsection \<open>Rounding and snapping\<close>

lemma Math_round_of_int: "Math_round (real_of_int m) = m"
  by (simp add: Math_round_def)

lemma Math_round_near: "\<bar>real_of_int (Math_round w) - w\<bar> \<le> 1 / 2"
proof -
  define n where "n = real_of_int \<lfloor>w + 1 / 2\<rfloor>"
  have "n \<le> w + 1 / 2" and "w + 1 / 2 < n + 1"
    unfolding n_def by linarith+
  then have "n - w \<le> 1 / 2" and "- (n - w) \<le> 1 / 2" by linarith+
  then have "\<bar>n - w\<bar> \<le> 1 / 2" by (rule abs_leI)
  then show ?thesis by (simp add: Math_round_def n_def)
qed

lemma snap_dvd:
  assumes "s dvd m" and "s \<noteq> 0"
  shows "Math_round (real_of_int m / real_of_int s) * s = m"
proof -
  from assms obtain q where m: "m = s * q" by (auto elim: dvdE)
  with \<open>s \<noteq> 0\<close> have "real_of_int m / real_of_int s = real_of_int q" by simp
  then show ?thesis using m by (simp add: Math_round_of_int)
qed

lemma snap_to_step_near:
  assumes "0 < step"
  shows "\<bar>real_of_int (snap_to_step step v) - v\<bar> \<le> real_of_int step / 2"
proof -
  define s where "s = real_of_int step"
  define w where "w = v / s"
  define q where "q = real_of_int (Math_round w)"
  have s: "0 < s" using assms by (simp add: s_def)
  have v: "v = w * s" using s by (simp add: w_def)
  have "\<bar>q - w\<bar> \<le> 1 / 2" unfolding q_def by (rule Math_round_near)
  then have "\<bar>q - w\<bar> * s \<le> 1 / 2 * s"
    using s by (intro mult_right_mono) simp_all
  moreover have "\<bar>q - w\<bar> * s = \<bar>q * s - w * s\<bar>"
    using s by (simp add: abs_mult left_diff_distrib [symmetric])
  ultimately have "\<bar>q * s - v\<bar> \<le> s / 2" by (simp add: v)
  then show ?thesis
    by (simp add: snap_to_step_def q_def w_def s_def)
qed

text \<open>
  Claim C1. For a domain with a positive step and \<open>min < max\<close>, \<open>ratioToValue\<close> is the
  spec's two-stage rounding (round \<open>(max - min) * ratio + min\<close> to an integer, then snap
  that integer with \<open>round(x / step) * step\<close>), and \<open>valueToRatio\<close> is the spec's clamp to
  \<open>[min, max]\<close>, snap, and \<open>(v' - min) / (max - min)\<close>. The snap gives a multiple of the
  step that is at most half a step away from what it snaps, which is what "nearest
  multiple" says.
\<close>

theorem value_mapping_as_specified:
  assumes "0 < r_step r" and "r_min r < r_max r"
  shows "ratioToValue r ratio = spec_ratioToValue (r_min r) (r_max r) (r_step r) ratio
       \<and> valueToRatio r v = spec_valueToRatio (r_min r) (r_max r) (r_step r) v
       \<and> r_step r dvd snap_to_step (r_step r) u
       \<and> \<bar>real_of_int (snap_to_step (r_step r) u) - u\<bar> \<le> real_of_int (r_step r) / 2"
  using assms snap_to_step_near [of "r_step r" u]
  by (simp add: ratioToValue_def valueToRatio_def spec_ratioToValue_def spec_valueToRatio_def
      snap_to_step_def Let_def)

text \<open>
  At \<open>min = 0\<close>, \<open>max = 10\<close>, \<open>step = 4\<close> and ratio \<open>0.15\<close> the two stages show: \<open>1.5\<close>
  rounds to \<open>2\<close>, which snaps to \<open>4\<close>, while \<open>1.5\<close> itself would snap to \<open>0\<close>.
\<close>

theorem value_mapping_as_specified_witness:
  "0 < r_step (default_range\<lparr>r_max := 10, r_step := 4\<rparr>)
   \<and> r_min (default_range\<lparr>r_max := 10, r_step := 4\<rparr>) < r_max (default_range\<lparr>r_max := 10, r_step := 4\<rparr>)
   \<and> ratioToValue (default_range\<lparr>r_max := 10, r_step := 4\<rparr>) (3 / 20) = spec_ratioToValue 0 10 4 (3 / 20)
   \<and> spec_ratioToValue 0 10 4 (3 / 20) = 4
   \<and> snap_to_step 4 (3 / 2) = 0
   \<and> valueToRatio (default_range\<lparr>r_max := 10, r_step := 4\<rparr>) 7 = spec_valueToRatio 0 10 4 7
   \<and> spec_valueToRatio 0 10 4 7 = 4 / 5"
  using value_mapping_as_specified [of "default_range\<lparr>r_max := 10, r_step := 4\<rparr>" "3 / 20" 7 0]
  by (simp add: default_range_sel spec_ratioToValue_def spec_valueToRatio_def snap_to_step_def
      Math_round_def clamp_def)

lemma set_ratio_val: "k_val (set_ratio r q k) = ratioToValue r (clamp 0 q 1)"
  by (simp add: set_ratio_def Let_def)

lemma set_ratio_ratio:
  "k_ratio (set_ratio r q k) =
     (if r_snaps r then valueToRatio r (real_of_int (ratioToValue r (clamp 0 q 1))) else clamp 0 q 1)"
  by (simp add: set_ratio_def Let_def)

lemma ratioToValue_0_10_4: "ratioToValue (default_range\<lparr>r_max := 10, r_step := 4, r_snaps := True\<rparr>) 1 = 12"
  by (simp add: ratioToValue_def default_range_sel Math_round_def)

lemma valueToRatio_0_10_4: "valueToRatio (default_range\<lparr>r_max := 10, r_step := 4, r_snaps := True\<rparr>) 12 = 6 / 5"
  by (simp add: valueToRatio_def default_range_sel Math_round_def clamp_def)

lemma set_ratio_unit_without_snaps:
  "\<not> r_snaps r \<Longrightarrow> 0 \<le> k_ratio (set_ratio r q k) \<and> k_ratio (set_ratio r q k) \<le> 1"
  by (simp add: set_ratio_ratio clamp_def)

text \<open>
  Claim C2 says that the ratio a knob stores is in \<open>[0, 1]\<close> after every assignment, the
  snapping one included. The setter clamps first, but with snaps on it then stores what
  \<open>valueToRatio\<close> returns, and \<open>valueToRatio\<close> snaps after it clamps: with \<open>min = 0\<close>,
  \<open>max = 10\<close>, \<open>step = 4\<close>, assigning the ratio \<open>1\<close> gives the value \<open>12\<close> and stores the
  ratio \<open>1.2\<close>.
\<close>

theorem set_ratio_leaves_unit_interval:
  "k_val (set_ratio (default_range\<lparr>r_max := 10, r_step := 4, r_snaps := True\<rparr>) 1 (knob_at 0 0 False)) = 12
   \<and> k_ratio (set_ratio (default_range\<lparr>r_max := 10, r_step := 4, r_snaps := True\<rparr>) 1 (knob_at 0 0 False)) = 6 / 5
   \<and> \<not> k_ratio (set_ratio (default_range\<lparr>r_max := 10, r_step := 4, r_snaps := True\<rparr>) 1 (knob_at 0 0 False)) \<le> 1"
  by (simp add: set_ratio_val set_ratio_ratio clamp_def ratioToValue_0_10_4 valueToRatio_0_10_4)

text \<open>
  Claim C3 says that \<open>ratioToValue(0) = min\<close> and \<open>ratioToValue(1) = max\<close> in every valid
  domain. The result is always a multiple of the step, so it cannot be a bound that is
  not one: with \<open>min = 0\<close>, \<open>max = 10\<close>, \<open>step = 3\<close> the ratio \<open>1\<close> gives \<open>9\<close>.
\<close>

theorem ratioToValue_ends_counterexample:
  "r_min (default_range\<lparr>r_max := 10, r_step := 3\<rparr>) < r_max (default_range\<lparr>r_max := 10, r_step := 3\<rparr>)
   \<and> 0 < r_step (default_range\<lparr>r_max := 10, r_step := 3\<rparr>)
   \<and> ratioToValue (default_range\<lparr>r_max := 10, r_step := 3\<rparr>) 1 = 9
   \<and> ratioToValue (default_range\<lparr>r_max := 10, r_step := 3\<rparr>) 1 \<noteq> r_max (default_range\<lparr>r_max := 10, r_step := 3\<rparr>)"
  by (simp add: ratioToValue_def default_range_sel Math_round_def)

text \<open>
  Claim C3, amended. In a domain whose positive step divides \<open>min\<close> and \<open>max\<close> (every
  domain with step \<open>1\<close> among them), \<open>ratioToValue(0) = min\<close> and \<open>ratioToValue(1) = max\<close>.
\<close>

theorem ratioToValue_ends:
  assumes "0 < r_step r" and "r_step r dvd r_min r" and "r_step r dvd r_max r"
  shows "ratioToValue r 0 = r_min r \<and> ratioToValue r 1 = r_max r"
  using assms by (simp add: ratioToValue_def Math_round_of_int snap_dvd)

theorem ratioToValue_ends_witness:
  "0 < r_step (default_range\<lparr>r_min := 21, r_max := 72, r_step := 3\<rparr>)
   \<and> r_step (default_range\<lparr>r_min := 21, r_max := 72, r_step := 3\<rparr>) dvd r_min (default_range\<lparr>r_min := 21, r_max := 72, r_step := 3\<rparr>)
   \<and> r_step (default_range\<lparr>r_min := 21, r_max := 72, r_step := 3\<rparr>) dvd r_max (default_range\<lparr>r_min := 21, r_max := 72, r_step := 3\<rparr>)
   \<and> ratioToValue (default_range\<lparr>r_min := 21, r_max := 72, r_step := 3\<rparr>) 0 = 21
   \<and> ratioToValue (default_range\<lparr>r_min := 21, r_max := 72, r_step := 3\<rparr>) 1 = 72"
  using ratioToValue_ends [of "default_range\<lparr>r_min := 21, r_max := 72, r_step := 3\<rparr>"]
  by (simp add: default_range_sel)

subsection \<open>The bar\<close>

lemma updateTicks_frame:
  "r_barL (final (updateTicks r)) = r_barL r \<and> r_barR (final (updateTicks r)) = r_barR r
   \<and> r_knobs (final (updateTicks r)) = r_knobs r \<and> r_out (final (updateTicks r)) = r_out r
   \<and> r_value (final (updateTicks r)) = r_value r \<and> r_active (final (updateTicks r)) = r_active r"
  by (simp add: updateTicks_def final_def Let_def split: option.split)

lemma updateBar_frame:
  "r_knobs (final (updateBar r)) = r_knobs r \<and> r_out (final (updateBar r)) = r_out r
   \<and> r_value (final (updateBar r)) = r_value r \<and> r_active (final (updateBar r)) = r_active r"
  by (cases "r_knobs r") (simp_all add: updateBar_def final_def Let_def updateTicks_frame [unfolded final_def])

lemma updateBar_bar:
  assumes "r_knobs r = Some ks"
  shows "r_barL (final (updateBar r)) =
           (if r_dual r then Pct (min (k_ratio (knobs_first ks)) (k_ratio (knobs_last ks)) * 100) else Unset)"
    and "r_barR (final (updateBar r)) =
           (if r_dual r then Pct (100 - max (k_ratio (knobs_first ks)) (k_ratio (knobs_last ks)) * 100)
            else Pct (100 - k_ratio (knobs_first ks) * 100))"
  using assms by (simp_all add: updateBar_def Let_def updateTicks_frame)

text \<open>
  Claim C8 says that with one knob the bar's left edge is fixed at 0%. \<open>updateBar\<close> sets
  \<open>_barL\<close> to the empty string: the component writes no left edge at all, and where the
  bar then starts is left to a stylesheet that is not part of it.
\<close>

theorem single_knob_left_edge_is_unset:
  "\<not> r_dual (default_range\<lparr>r_knobs := Some (Single (knob_at (1 / 4) 25 False))\<rparr>)
   \<and> r_knobs (default_range\<lparr>r_knobs := Some (Single (knob_at (1 / 4) 25 False))\<rparr>)
       = Some (Single (knob_at (1 / 4) 25 False))
   \<and> r_barL (final (updateBar (default_range\<lparr>r_knobs := Some (Single (knob_at (1 / 4) 25 False))\<rparr>))) = Unset
   \<and> r_barL (final (updateBar (default_range\<lparr>r_knobs := Some (Single (knob_at (1 / 4) 25 False))\<rparr>))) \<noteq> Pct 0"
  by (simp add: updateBar_bar default_range_sel)

text \<open>
  Claim C8, amended. After \<open>updateBar\<close> (whether or not the tick update that ends it
  throws), with one knob the left-edge style is the empty string (\<open>Unset\<close>), whatever the
  ratio, and the right edge is \<open>100% - ratio * 100%\<close>; with two knobs the left edge is
  \<open>100%\<close> times the smaller of the two ratios and the right edge \<open>100%\<close> minus \<open>100%\<close>
  times the larger, also when it is the first knob that holds the larger ratio.
\<close>

theorem bar_extent:
  assumes "r_knobs r = Some ks"
  shows "(\<not> r_dual r \<longrightarrow>
            r_barL (final (updateBar r)) = Unset
          \<and> r_barR (final (updateBar r)) = Pct (100 - k_ratio (knobs_first ks) * 100))
       \<and> (r_dual r \<longrightarrow>
            r_barL (final (updateBar r)) = Pct (100 * min (k_ratio (knobs_first ks)) (k_ratio (knobs_last ks)))
          \<and> r_barR (final (updateBar r)) = Pct (100 - 100 * max (k_ratio (knobs_first ks)) (k_ratio (knobs_last ks))))
       \<and> (r_dual r \<and> k_ratio (knobs_last ks) \<le> k_ratio (knobs_first ks) \<longrightarrow>
            r_barL (final (updateBar r)) = Pct (100 * k_ratio (knobs_last ks))
          \<and> r_barR (final (updateBar r)) = Pct (100 - 100 * k_ratio (knobs_first ks)))"
  using assms by (simp add: updateBar_bar min_def max_def)

theorem bar_extent_witness:
  "r_knobs (default_range\<lparr>r_dual := True, r_knobs := Some (Two (knob_at (9 / 10) 90 False) (knob_at (1 / 10) 10 True))\<rparr>)
     = Some (Two (knob_at (9 / 10) 90 False) (knob_at (1 / 10) 10 True))
   \<and> r_dual (default_range\<lparr>r_dual := True, r_knobs := Some (Two (knob_at (9 / 10) 90 False) (knob_at (1 / 10) 10 True))\<rparr>)
   \<and> k_ratio (knob_at (1 / 10) 10 True) \<le> k_ratio (knob_at (9 / 10) 90 False)
   \<and> r_barL (final (updateBar (default_range\<lparr>r_dual := True, r_knobs := Some (Two (knob_at (9 / 10) 90 False) (knob_at (1 / 10) 10 True))\<rparr>))) = Pct 10
   \<and> r_barR (final (updateBar (default_range\<lparr>r_dual := True, r_knobs := Some (Two (knob_at (9 / 10) 90 False) (knob_at (1 / 10) 10 True))\<rparr>))) = Pct 10
   \<and> r_knobs (default_range\<lparr>r_knobs := Some (Single (knob_at (1 / 4) 25 False))\<rparr>) = Some (Single (knob_at (1 / 4) 25 False))
   \<and> \<not> r_dual (default_range\<lparr>r_knobs := Some (Single (knob_at (1 / 4) 25 False))\<rparr>)
   \<and> r_barL (final (updateBar (default_range\<lparr>r_knobs := Some (Single (knob_at (1 / 4) 25 False))\<rparr>))) = Unset
   \<and> r_barR (final (updateBar (default_range\<lparr>r_knobs := Some (Single (knob_at (1 / 4) 25 False))\<rparr>))) = Pct 75"
  using bar_extent [of "default_range\<lparr>r_dual := True, r_knobs := Some (Two (knob_at (9 / 10) 90 False) (knob_at (1 / 10) 10 True))\<rparr>"
      "Two (knob_at (9 / 10) 90 False) (knob_at (1 / 10) 10 True)"]
    bar_extent [of "default_range\<lparr>r_knobs := Some (Single (knob_at (1 / 4) 25 False))\<rparr>"
      "Single (knob_at (1 / 4) 25 False)"]
  by (simp add: default_range_sel knob_at_sel)

subsection \<open>Outcomes and the examples\<close>

lemma final_Returned: "final (Returned a) = a"
  by (simp add: final_def)





lemma example_dual_sel:
  "r_dual example_dual" "r_knobs example_dual = Some (Two (knob_at (1 / 10) 10 False) (knob_at (9 / 10) 90 True))"
  "r_min example_dual = 0" "r_max example_dual = 100" "r_step example_dual = 1" "r_out example_dual = []"
  by (simp_all add: example_dual_def default_range_sel)

lemma example_single_sel:
  "\<not> r_dual example_single" "r_knobs example_single = Some (Single (knob_at 0 0 False))"
  "r_min example_single = 0" "r_max example_single = 100" "r_step example_single = 1" "r_out example_single = []"
  by (simp_all add: example_single_def default_range_sel)


subsection \<open>The press\<close>









subsection \<open>A value from outside\<close>

lemma mapping_r_value:
  "valueToRatio (r\<lparr>r_value := v\<rparr>) = valueToRatio r"
  "ratioToValue (r\<lparr>r_value := v\<rparr>) = ratioToValue r"
  by (rule ext, simp add: valueToRatio_def ratioToValue_def)+

lemma set_value_range: "set_value (r\<lparr>r_value := v\<rparr>) val k = set_value r val k"
  unfolding set_value_def mapping_r_value ..

lemma writeValue_absent: "\<not> isPresent val \<Longrightarrow> writeValue val r = Returned r"
  by (simp add: writeValue_def)

lemma writeValue_no_knobs:
  "isPresent val \<Longrightarrow> r_knobs r = None \<Longrightarrow> writeValue val r = Returned (r\<lparr>r_value := val\<rparr>)"
  by (simp add: writeValue_def)

lemma writeValue_knobs:
  assumes "isPresent val" and "r_knobs r = Some ks"
  shows "writeValue val r =
           updateBar (r\<lparr>r_value := val,
             r_knobs := Some (upd_first position
               (if r_dual r then
                  upd_last position
                    (upd_last (set_value r (prop_upper val))
                       (upd_first (set_value r (prop_lower val)) ks))
                else upd_first (set_value r val) ks))\<rparr>)"
proof -
  have eq: "set_value (r\<lparr>r_value := val\<rparr>) = set_value r"
    by (rule ext, rule ext) (rule set_value_range)
  show ?thesis
    using assms by (simp add: writeValue_def eq)
qed

lemma writeValue_out: "r_out (final (writeValue val r)) = r_out r"
proof (cases "isPresent val")
  case False
  then show ?thesis by (simp add: writeValue_absent final_Returned)
next
  case True
  show ?thesis
  proof (cases "r_knobs r")
    case None
    with True show ?thesis by (simp add: writeValue_no_knobs final_Returned)
  next
    case (Some ks)
    with True show ?thesis by (simp add: writeValue_knobs updateBar_frame)
  qed
qed

lemma writeValue_value: "isPresent val \<Longrightarrow> r_value (final (writeValue val r)) = val"
  by (cases "r_knobs r")
     (simp_all add: writeValue_no_knobs final_Returned writeValue_knobs updateBar_frame)

lemma writeValue_single:
  assumes "isPresent val" and "\<not> r_dual r" and "r_knobs r = Some (Single k)"
  shows "r_knobs (final (writeValue val r)) = Some (Single (position (set_value r val k)))"
    and "r_barL (final (writeValue val r)) = Unset"
    and "r_barR (final (writeValue val r)) = Pct (100 - k_ratio (set_value r val k) * 100)"
  using assms by (simp_all add: writeValue_knobs updateBar_frame updateBar_bar position_def)

lemma writeValue_dual:
  assumes "isPresent val" and "r_dual r" and "r_knobs r = Some (Two a b)"
  shows "r_knobs (final (writeValue val r))
          = Some (Two (position (set_value r (prop_lower val) a)) (position (set_value r (prop_upper val) b)))"
    and "r_barL (final (writeValue val r))
          = Pct (min (k_ratio (set_value r (prop_lower val) a)) (k_ratio (set_value r (prop_upper val) b)) * 100)"
    and "r_barR (final (writeValue val r))
          = Pct (100 - max (k_ratio (set_value r (prop_lower val) a)) (k_ratio (set_value r (prop_upper val) b)) * 100)"
  using assms by (simp_all add: writeValue_knobs updateBar_frame updateBar_bar position_def)

lemma set_value_Num:
  "set_value r (Num q) k = k\<lparr>k_ratio := valueToRatio r q, k_val := ratioToValue r (valueToRatio r q)\<rparr>"
  by (simp add: set_value_def isString_def isNumber_def isNaN_def Let_def)

lemma set_value_not_number:
  "set_value r Undefined k = k" "set_value r NaN k = k" "set_value r Null k = k" "set_value r (Obj x y) k = k"
  "set_value r (Str None) k = k"
  by (simp_all add: set_value_def isString_def isNumber_def isNaN_def round_string_def)

lemma set_value_Str:
  "set_value r (Str (Some q)) k = set_value r (Num (real_of_int (Math_round q))) k"
  by (simp add: set_value_def isString_def isNumber_def isNaN_def round_string_def Let_def)

lemma set_value_numeric:
  "set_value r v k =
     (case numeric v of
        Some q \<Rightarrow> k\<lparr>k_ratio := valueToRatio r q, k_val := ratioToValue r (valueToRatio r q)\<rparr>
      | None \<Rightarrow> k)"
proof (cases v)
  case (Str c)
  then show ?thesis
    by (cases c) (simp_all add: numeric_def set_value_Str set_value_Num set_value_not_number)
qed (simp_all add: numeric_def set_value_Num set_value_not_number)

lemma positioned_set_value:
  "position (set_value r v k) =
     (case numeric v of
        Some q \<Rightarrow> \<lparr>k_ratio = valueToRatio r q, k_val = ratioToValue r (valueToRatio r q),
                    k_x = valueToRatio r q * 100, pressed = pressed k, upper = upper k\<rparr>
      | None \<Rightarrow> k\<lparr>k_x := k_ratio k * 100\<rparr>)"
  by (simp add: set_value_numeric position_def split: option.split)

lemma set_value_ratio:
  "k_ratio (set_value r v k) = (case numeric v of Some q \<Rightarrow> valueToRatio r q | None \<Rightarrow> k_ratio k)"
  by (simp add: set_value_numeric split: option.split)

lemma example_half_sel:
  "\<not> r_dual example_half" "r_knobs example_half = Some (Single (knob_at (1 / 2) 50 False))"
  "r_min example_half = 0" "r_max example_half = 100" "r_step example_half = 1" "r_out example_half = []"
  by (simp_all add: example_half_def default_range_sel)

text \<open>
  Claim C9 says that \<open>writeValue\<close> updates the knob values for every injected value. The
  knob's value setter takes a number only: a string that is not a number, or \<open>NaN\<close>, is
  stored as the range's value while the knob stays where it was, here at the value 50.
\<close>

theorem writeValue_keeps_knob_on_non_number:
  "isPresent (Str None) \<and> \<not> r_dual example_half
   \<and> r_knobs example_half = Some (Single (knob_at (1 / 2) 50 False))
   \<and> r_value (final (writeValue (Str None) example_half)) = Str None
   \<and> r_knobs (final (writeValue (Str None) example_half)) = Some (Single (knob_at (1 / 2) 50 False))
   \<and> isPresent NaN
   \<and> r_knobs (final (writeValue NaN example_half)) = Some (Single (knob_at (1 / 2) 50 False))"
  by (simp add: isPresent_def example_half_sel writeValue_value writeValue_single
      set_value_not_number position_def knob_at_def)

text \<open>
  Claim C9, amended. \<open>writeValue\<close> never adds to the calls that go out of the component:
  no change callback, no Change event, for every value and every state. An absent value
  (\<open>undefined\<close>, \<open>null\<close>) changes nothing. A present value is stored and handed to the
  knobs, the whole value with one knob, \<open>val.lower\<close> and \<open>val.upper\<close> with two. A number,
  or a string that converts to a number (which is rounded first), puts the knob at
  \<open>valueToRatio\<close> of it, with the value that ratio maps back to; \<open>NaN\<close>, any other string,
  and a \<open>lower\<close> or \<open>upper\<close> that is missing leave the knob's ratio and value as they were.
  Then every knob is repositioned to its ratio and the bar is recomputed from the ratios.
\<close>

theorem writeValue_sets_knobs_silently:
  "r_out (final (writeValue val r)) = r_out r
   \<and> (\<not> isPresent val \<longrightarrow> writeValue val r = Returned r)
   \<and> (isPresent val \<longrightarrow> r_value (final (writeValue val r)) = val)
   \<and> (isPresent val \<and> \<not> r_dual r \<and> r_knobs r = Some (Single k) \<longrightarrow>
        r_knobs (final (writeValue val r))
          = Some (Single
              (case numeric val of
                 Some q \<Rightarrow> \<lparr>k_ratio = valueToRatio r q, k_val = ratioToValue r (valueToRatio r q),
                             k_x = valueToRatio r q * 100, pressed = pressed k, upper = upper k\<rparr>
               | None \<Rightarrow> k\<lparr>k_x := k_ratio k * 100\<rparr>))
      \<and> r_barL (final (writeValue val r)) = Unset
      \<and> r_barR (final (writeValue val r))
          = Pct (100 - (case numeric val of Some q \<Rightarrow> valueToRatio r q | None \<Rightarrow> k_ratio k) * 100))
   \<and> (r_dual r \<and> r_knobs r = Some (Two a b) \<longrightarrow>
        r_knobs (final (writeValue (Obj lo up) r))
          = Some (Two
              (case numeric lo of
                 Some q \<Rightarrow> \<lparr>k_ratio = valueToRatio r q, k_val = ratioToValue r (valueToRatio r q),
                             k_x = valueToRatio r q * 100, pressed = pressed a, upper = upper a\<rparr>
               | None \<Rightarrow> a\<lparr>k_x := k_ratio a * 100\<rparr>)
              (case numeric up of
                 Some q \<Rightarrow> \<lparr>k_ratio = valueToRatio r q, k_val = ratioToValue r (valueToRatio r q),
                             k_x = valueToRatio r q * 100, pressed = pressed b, upper = upper b\<rparr>
               | None \<Rightarrow> b\<lparr>k_x := k_ratio b * 100\<rparr>))
      \<and> r_barL (final (writeValue (Obj lo up) r))
          = Pct (min (case numeric lo of Some q \<Rightarrow> valueToRatio r q | None \<Rightarrow> k_ratio a)
                     (case numeric up of Some q \<Rightarrow> valueToRatio r q | None \<Rightarrow> k_ratio b) * 100)
      \<and> r_barR (final (writeValue (Obj lo up) r))
          = Pct (100 - max (case numeric lo of Some q \<Rightarrow> valueToRatio r q | None \<Rightarrow> k_ratio a)
                           (case numeric up of Some q \<Rightarrow> valueToRatio r q | None \<Rightarrow> k_ratio b) * 100))
   \<and> (isPresent val \<and> (\<forall>lo up. val \<noteq> Obj lo up) \<and> r_dual r \<and> r_knobs r = Some (Two a b) \<longrightarrow>
        r_knobs (final (writeValue val r))
          = Some (Two (a\<lparr>k_x := k_ratio a * 100\<rparr>) (b\<lparr>k_x := k_ratio b * 100\<rparr>)))"
proof -
  have p: "isPresent (Obj lo up)" by (simp add: isPresent_def)
  have single: "r_knobs (final (writeValue val r))
          = Some (Single
              (case numeric val of
                 Some q \<Rightarrow> \<lparr>k_ratio = valueToRatio r q, k_val = ratioToValue r (valueToRatio r q),
                             k_x = valueToRatio r q * 100, pressed = pressed k, upper = upper k\<rparr>
               | None \<Rightarrow> k\<lparr>k_x := k_ratio k * 100\<rparr>))
      \<and> r_barL (final (writeValue val r)) = Unset
      \<and> r_barR (final (writeValue val r))
          = Pct (100 - (case numeric val of Some q \<Rightarrow> valueToRatio r q | None \<Rightarrow> k_ratio k) * 100)"
    if "isPresent val" "\<not> r_dual r" "r_knobs r = Some (Single k)"
    using writeValue_single [OF that] by (simp add: positioned_set_value set_value_ratio)
  have dual: "r_knobs (final (writeValue (Obj lo up) r))
          = Some (Two
              (case numeric lo of
                 Some q \<Rightarrow> \<lparr>k_ratio = valueToRatio r q, k_val = ratioToValue r (valueToRatio r q),
                             k_x = valueToRatio r q * 100, pressed = pressed a, upper = upper a\<rparr>
               | None \<Rightarrow> a\<lparr>k_x := k_ratio a * 100\<rparr>)
              (case numeric up of
                 Some q \<Rightarrow> \<lparr>k_ratio = valueToRatio r q, k_val = ratioToValue r (valueToRatio r q),
                             k_x = valueToRatio r q * 100, pressed = pressed b, upper = upper b\<rparr>
               | None \<Rightarrow> b\<lparr>k_x := k_ratio b * 100\<rparr>))
      \<and> r_barL (final (writeValue (Obj lo up) r))
          = Pct (min (case numeric lo of Some q \<Rightarrow> valueToRatio r q | None \<Rightarrow> k_ratio a)
                     (case numeric up of Some q \<Rightarrow> valueToRatio r q | None \<Rightarrow> k_ratio b) * 100)
      \<and> r_barR (final (writeValue (Obj lo up) r))
          = Pct (100 - max (case numeric lo of Some q \<Rightarrow> valueToRatio r q | None \<Rightarrow> k_ratio a)
                           (case numeric up of Some q \<Rightarrow> valueToRatio r q | None \<Rightarrow> k_ratio b) * 100)"
    if "r_dual r" "r_knobs r = Some (Two a b)"
    using writeValue_dual [OF p that] by (simp add: positioned_set_value set_value_ratio prop_lower_def prop_upper_def)
  have plain: "r_knobs (final (writeValue val r))
          = Some (Two (a\<lparr>k_x := k_ratio a * 100\<rparr>) (b\<lparr>k_x := k_ratio b * 100\<rparr>))"
    if h: "isPresent val" "\<forall>lo up. val \<noteq> Obj lo up" "r_dual r" "r_knobs r = Some (Two a b)"
  proof -
    from h(2) have "prop_lower val = Undefined" "prop_upper val = Undefined"
      by (cases val; simp add: prop_lower_def prop_upper_def)+
    with writeValue_dual(1) [OF h(1,3,4)] show ?thesis
      by (simp add: set_value_not_number position_def)
  qed
  from writeValue_out [of val r] writeValue_absent [of val r] writeValue_value [of val r]
    single dual plain
  show ?thesis by blast
qed

lemma mapping_at_40:
  "valueToRatio example_single 40 = 2 / 5" "ratioToValue example_single (2 / 5) = 40"
  by (simp_all add: valueToRatio_def ratioToValue_def clamp_def Math_round_def example_single_sel)

lemma mapping_at_20_80:
  "valueToRatio example_dual 20 = 1 / 5" "ratioToValue example_dual (1 / 5) = 20"
  "valueToRatio example_dual 80 = 4 / 5" "ratioToValue example_dual (4 / 5) = 80"
  by (simp_all add: valueToRatio_def ratioToValue_def clamp_def Math_round_def example_dual_sel)

lemma numeric_examples:
  "numeric (Str (Some (403 / 10))) = Some 40" "numeric (Num 20) = Some 20"
  "numeric (Str (Some 80)) = Some 80"
  by (simp_all add: numeric_def Math_round_def)

text \<open>
  The string \<open>40.3\<close> moves the single knob to the value 40; the object with \<open>lower\<close> 20 and
  \<open>upper\<close> the string \<open>80\<close> moves the two knobs to 20 and 80.
\<close>

theorem writeValue_sets_knobs_silently_witness:
  "isPresent (Str (Some (403 / 10))) \<and> \<not> r_dual example_single
   \<and> r_knobs example_single = Some (Single (knob_at 0 0 False))
   \<and> r_out (final (writeValue (Str (Some (403 / 10))) example_single)) = []
   \<and> r_value (final (writeValue (Str (Some (403 / 10))) example_single)) = Str (Some (403 / 10))
   \<and> r_knobs (final (writeValue (Str (Some (403 / 10))) example_single))
       = Some (Single \<lparr>k_ratio = 2 / 5, k_val = 40, k_x = 40, pressed = False, upper = False\<rparr>)
   \<and> r_barR (final (writeValue (Str (Some (403 / 10))) example_single)) = Pct 60
   \<and> r_dual example_dual
   \<and> r_knobs example_dual = Some (Two (knob_at (1 / 10) 10 False) (knob_at (9 / 10) 90 True))
   \<and> r_out (final (writeValue (Obj (Num 20) (Str (Some 80))) example_dual)) = []
   \<and> r_knobs (final (writeValue (Obj (Num 20) (Str (Some 80))) example_dual))
       = Some (Two \<lparr>k_ratio = 1 / 5, k_val = 20, k_x = 20, pressed = False, upper = False\<rparr>
                   \<lparr>k_ratio = 4 / 5, k_val = 80, k_x = 80, pressed = False, upper = True\<rparr>)
   \<and> r_barL (final (writeValue (Obj (Num 20) (Str (Some 80))) example_dual)) = Pct 20
   \<and> r_barR (final (writeValue (Obj (Num 20) (Str (Some 80))) example_dual)) = Pct 20
   \<and> \<not> isPresent Undefined
   \<and> writeValue Undefined example_single = Returned example_single
   \<and> isPresent (Num 5)
   \<and> r_knobs (final (writeValue (Num 5) example_dual))
       = Some (Two (knob_at (1 / 10) 10 False) (knob_at (9 / 10) 90 True))"
  using writeValue_sets_knobs_silently [where val = "Str (Some (403 / 10))" and r = example_single
      and k = "knob_at 0 0 False"]
    writeValue_sets_knobs_silently [where val = "Num 5" and r = example_dual
      and a = "knob_at (1 / 10) 10 False" and b = "knob_at (9 / 10) 90 True"]
    writeValue_sets_knobs_silently [where val = "Obj (Num 20) (Str (Some 80))" and r = example_dual
      and a = "knob_at (1 / 10) 10 False" and b = "knob_at (9 / 10) 90 True"
      and lo = "Num 20" and up = "Str (Some 80)"]
    writeValue_sets_knobs_silently [where val = Undefined and r = example_single]
  by (simp add: isPresent_def example_single_sel example_dual_sel numeric_examples
      mapping_at_40 mapping_at_20_80 knob_at_def)


section \<open>Properties of the refresher\<close>

subsection \<open>What each operation changes\<close>

lemma busy_iff: "busy s \<longleftrightarrow> s = Refreshing \<or> s = Cancelling \<or> s = Completing"
  by (cases s) (simp_all add: busy_def BUSY_def)

lemma setCss_sel:
  "state (setCss y d ov dl r) = state r" "progress (setCss y d ov dl r) = progress r"
  "didStart (setCss y d ov dl r) = didStart r" "appliedStyles (setCss y d ov dl r) = positive y"
  "pullMin (setCss y d ov dl r) = pullMin r" "pullDelta (setCss y d ov dl r) = pullDelta r"
  "snapbackDuration (setCss y d ov dl r) = snapbackDuration r"
  "timers (setCss y d ov dl r) = timers r" "next_handle (setCss y d ov dl r) = next_handle r"
  "trace (setCss y d ov dl r) = trace r @
     [DomWrite \<lparr>css_transform =
                  (case y of Some v \<Rightarrow> if v > 0 then TranslateY v else TranslateZ0
                   | None \<Rightarrow> TranslateZ0),
                transitionDuration = d, transitionDelay = dl,
                overflow = (if ov then ''hidden'' else [])\<rparr>]"
  by (simp_all add: setCss_def)

lemma set_state_sel:
  "state (set_state s r) = s" "progress (set_state s r) = progress r"
  "didStart (set_state s r) = didStart r" "appliedStyles (set_state s r) = appliedStyles r"
  "pullMin (set_state s r) = pullMin r" "pullDelta (set_state s r) = pullDelta r"
  "snapbackDuration (set_state s r) = snapbackDuration r"
  "timers (set_state s r) = timers r" "next_handle (set_state s r) = next_handle r"
  "trace (set_state s r) = trace r @ [StateSet s]"
  by (simp_all add: set_state_def)

lemma emit_sel:
  "state (emit e r) = state r" "progress (emit e r) = progress r"
  "didStart (emit e r) = didStart r" "appliedStyles (emit e r) = appliedStyles r"
  "pullMin (emit e r) = pullMin r" "pullDelta (emit e r) = pullDelta r"
  "snapbackDuration (emit e r) = snapbackDuration r"
  "timers (emit e r) = timers r" "next_handle (emit e r) = next_handle r"
  "trace (emit e r) = trace r @ [Emit e]"
  by (simp_all add: emit_def)

lemma close_callback_sel:
  "state (close_callback ev t r) = Inactive" "progress (close_callback ev t r) = 0"
  "didStart (close_callback ev t r) = False" "appliedStyles (close_callback ev t r) = False"
  "pullMin (close_callback ev t r) = pullMin r" "pullDelta (close_callback ev t r) = pullDelta r"
  "timers (close_callback ev t r) = (if ev then removeAll t (timers r) else timers r)"
  "next_handle (close_callback ev t r) = next_handle r"
  "trace (close_callback ev t r) = trace r @ [StateSet Inactive, DomWrite neutral_css]"
  by (simp_all add: close_callback_def Let_def setCss_sel set_state_sel clearTimeout_def
      neutral_css_def positive_def)

lemma close_callback_reset: "reset_done (close_callback ev t r)"
  by (simp add: reset_done_def close_callback_sel)

lemma close_sel:
  "state (close s d r) = s" "progress (close s d r) = progress r" "didStart (close s d r) = didStart r"
  "timers (close s d r) = timers r @ [next_handle r]" "next_handle (close s d r) = Suc (next_handle r)"
  "trace (close s d r) = trace r @ [StateSet s,
     DomWrite \<lparr>css_transform = TranslateZ0, transitionDuration = [], transitionDelay = d, overflow = ''hidden''\<rparr>]"
  by (simp_all add: close_def Let_def setCss_sel set_state_sel)

lemma beginRefresh_sel:
  "state (beginRefresh r) = Refreshing" "progress (beginRefresh r) = progress r"
  "didStart (beginRefresh r) = didStart r" "timers (beginRefresh r) = timers r"
  "trace (beginRefresh r) = trace r @ [StateSet Refreshing,
     DomWrite \<lparr>css_transform = (if pullMin r > 0 then TranslateY (pullMin r) else TranslateZ0),
                transitionDuration = snapbackDuration r, transitionDelay = [], overflow = ''hidden''\<rparr>,
     Emit IonRefresh]"
  by (simp_all add: beginRefresh_def emit_sel setCss_sel set_state_sel)

lemma initial_refresher_sel:
  "state initial_refresher = Inactive" "progress initial_refresher = 0"
  "didStart initial_refresher = False" "appliedStyles initial_refresher = False"
  "pullMin initial_refresher = 60" "pullDelta initial_refresher = 60"
  "snapbackDuration initial_refresher = ''280ms''"
  "trace initial_refresher = []" "timers initial_refresher = []" "next_handle initial_refresher = 0"
  by (simp_all add: initial_refresher_def)

subsection \<open>The close sequence\<close>

lemma deliver_timer_pending:
  "t \<in> set (timers r) \<Longrightarrow> reset_done (deliver (TimerFired t) r)"
  "t \<in> set (timers r) \<Longrightarrow> timers (deliver (TimerFired t) r) = removeAll t (timers r)"
  "t \<notin> set (timers r) \<Longrightarrow> deliver (TimerFired t) r = r"
  by (simp_all add: close_callback_reset close_callback_sel)

lemma deliver_keeps_reset: "reset_done r \<Longrightarrow> reset_done (deliver s r)"
  by (cases s) (simp_all add: close_callback_reset)

lemma deliver_all_keeps_reset: "reset_done r \<Longrightarrow> reset_done (fold deliver ss r)"
  by (induction ss arbitrary: r) (simp_all add: deliver_keeps_reset)

lemma deliver_all_resets:
  "t \<in> set (timers r) \<Longrightarrow> TimerFired t \<in> set ss \<Longrightarrow> reset_done (fold deliver ss r)"
proof (induction ss arbitrary: r)
  case Nil
  then show ?case by simp
next
  case (Cons s ss)
  show ?case
  proof (cases "\<exists>u. s = TimerFired u \<and> u \<in> set (timers r)")
    case True
    then have "reset_done (deliver s r)" by (auto simp: close_callback_reset)
    then show ?thesis by (simp add: deliver_all_keeps_reset)
  next
    case False
    then have same: "deliver s r = r" by (cases s) auto
    from False Cons.prems have "s \<noteq> TimerFired t" by auto
    with Cons.prems have "TimerFired t \<in> set ss" by simp
    with Cons.IH [OF Cons.prems(1)] show ?thesis by (simp add: same)
  qed
qed

text \<open>
  Claim C4 says that of the transition-finished signal and the fallback timer the first to
  arrive cancels the other and resets the component. The method \<open>close\<close> only arms the
  timer: the registration for the end of the transition is commented out. After
  \<open>complete()\<close> on a fresh component the end of the transition is therefore not heard: the
  state stays Completing and the timer stays pending.
\<close>

theorem transition_signal_is_not_heard:
  "state (deliver TransitionFinished (complete_refresher initial_refresher)) = Completing
   \<and> timers (deliver TransitionFinished (complete_refresher initial_refresher)) = [0]
   \<and> state (deliver TransitionFinished (complete_refresher initial_refresher)) \<noteq> Inactive"
  by (simp add: complete_refresher_def close_sel initial_refresher_sel)

text \<open>
  Claim C4, amended. The close sequence arms one timer and nothing else; a
  transition-finished signal leaves the component as it is. When a pending timer fires,
  state is Inactive, progress 0, \<open>didStart\<close> false, the last style written is the neutral
  one (no offset, duration \<open>0ms\<close>, overflow not hidden), and the timer is no longer pending,
  so that it cannot fire, and reset, a second time. The callback, were it called with an
  event, would cancel its timer and do the same reset.
\<close>

theorem timer_alone_closes:
  "deliver TransitionFinished r = r
   \<and> timers (close s d r) = timers r @ [next_handle r]
   \<and> (t \<in> set (timers r) \<longrightarrow>
        reset_done (deliver (TimerFired t) r)
      \<and> trace (deliver (TimerFired t) r) = trace r @ [StateSet Inactive, DomWrite neutral_css]
      \<and> t \<notin> set (timers (deliver (TimerFired t) r))
      \<and> deliver (TimerFired t) (deliver (TimerFired t) r) = deliver (TimerFired t) r)
   \<and> reset_done (close_callback True t r)
   \<and> t \<notin> set (timers (close_callback True t r))"
  by (simp add: close_sel close_callback_reset close_callback_sel)

theorem timer_alone_closes_witness:
  "0 \<in> set (timers (complete_refresher initial_refresher))
   \<and> state (complete_refresher initial_refresher) = Completing
   \<and> state (deliver (TimerFired 0) (complete_refresher initial_refresher)) = Inactive
   \<and> progress (deliver (TimerFired 0) (complete_refresher initial_refresher)) = 0
   \<and> timers (deliver (TimerFired 0) (complete_refresher initial_refresher)) = []
   \<and> trace (deliver (TimerFired 0) (complete_refresher initial_refresher))
       = [StateSet Completing,
          DomWrite \<lparr>css_transform = TranslateZ0, transitionDuration = [], transitionDelay = ''120ms'',
                     overflow = ''hidden''\<rparr>,
          StateSet Inactive, DomWrite neutral_css]"
  using timer_alone_closes [where r = "complete_refresher initial_refresher" and t = 0]
  by (simp add: complete_refresher_def close_sel close_callback_sel initial_refresher_sel reset_done_def)

text \<open>
  Claim C5. \<open>complete()\<close> has no failing branch: the model of it is a total function from
  components to components, from any state. Called twice in a row it leaves the state
  Completing with two more timers pending; once either of them has fired, whatever other
  signals arrive before or after, the component is reset (state Inactive, progress 0,
  \<open>didStart\<close> false, neutral style last). The reset is idempotent: a signal that reaches
  a component that is reset leaves it reset.
\<close>

theorem complete_twice:
  "state (complete_refresher (complete_refresher r)) = Completing
   \<and> timers (complete_refresher (complete_refresher r)) = timers r @ [next_handle r, Suc (next_handle r)]
   \<and> ((TimerFired (next_handle r) \<in> set ss \<or> TimerFired (Suc (next_handle r)) \<in> set ss) \<longrightarrow>
        reset_done (fold deliver ss (complete_refresher (complete_refresher r))))
   \<and> (reset_done x \<longrightarrow> reset_done (deliver sg x) \<and> state (deliver sg x) = Inactive)"
proof -
  have t: "timers (complete_refresher (complete_refresher r)) = timers r @ [next_handle r, Suc (next_handle r)]"
    by (simp add: complete_refresher_def close_sel)
  have "reset_done (fold deliver ss (complete_refresher (complete_refresher r)))"
    if "TimerFired (next_handle r) \<in> set ss \<or> TimerFired (Suc (next_handle r)) \<in> set ss"
    using that
  proof
    assume "TimerFired (next_handle r) \<in> set ss"
    then show ?thesis by (rule deliver_all_resets [rotated]) (simp add: t)
  next
    assume "TimerFired (Suc (next_handle r)) \<in> set ss"
    then show ?thesis by (rule deliver_all_resets [rotated]) (simp add: t)
  qed
  moreover have "state (deliver sg x) = Inactive" if "reset_done x"
    using deliver_keeps_reset [OF that, of sg] by (simp add: reset_done_def)
  ultimately show ?thesis
    using t by (simp add: complete_refresher_def close_sel deliver_keeps_reset)
qed

theorem complete_twice_witness:
  "TimerFired 0 \<in> set [TimerFired 0, TimerFired (Suc 0)]
   \<and> state (complete_refresher (complete_refresher initial_refresher)) = Completing
   \<and> timers (complete_refresher (complete_refresher initial_refresher)) = [0, Suc 0]
   \<and> reset_done (deliver (TimerFired 0) (complete_refresher (complete_refresher initial_refresher)))
   \<and> state (fold deliver [TimerFired 0, TimerFired (Suc 0)] (complete_refresher (complete_refresher initial_refresher))) = Inactive
   \<and> progress (fold deliver [TimerFired 0, TimerFired (Suc 0)] (complete_refresher (complete_refresher initial_refresher))) = 0
   \<and> \<not> didStart (fold deliver [TimerFired 0, TimerFired (Suc 0)] (complete_refresher (complete_refresher initial_refresher)))"
  using complete_twice [where r = initial_refresher and ss = "[TimerFired 0, TimerFired (Suc 0)]"
      and x = "deliver (TimerFired 0) (complete_refresher (complete_refresher initial_refresher))"
      and sg = "TimerFired (Suc 0)"]
  by (simp add: initial_refresher_sel reset_done_def complete_refresher_def close_sel close_callback_sel)

subsection \<open>The move handler\<close>

lemma onMove_pulling_code:
  "fst (onMove_pulling d r) =
     (case deltaY d of
        None \<Rightarrow> 8
      | Some y \<Rightarrow> if y = 0 then 8 else if y < pullMin r then 2
                  else if y > pullMin r + pullDelta r then 3 else 4)"
  by (simp add: onMove_pulling_def Let_def emit_sel setCss_sel split: option.split)

lemma onMove_pulling_progress:
  "deltaY d = Some y \<Longrightarrow> y \<noteq> 0 \<Longrightarrow> progress (snd (onMove_pulling d r)) = y / pullMin r"
  by (simp add: onMove_pulling_def Let_def emit_sel setCss_sel set_state_sel beginRefresh_sel)

lemma onMove_pulling_overshoot:
  assumes "deltaY d = Some y" and "y \<noteq> 0" and "\<not> y < pullMin r" and "y > pullMin r + pullDelta r"
  shows "state (snd (onMove_pulling d r)) = Refreshing"
    and "trace (snd (onMove_pulling d r)) = trace r @
      [ScrollPrevented,
       DomWrite \<lparr>css_transform = (if y > 0 then TranslateY y else TranslateZ0),
                  transitionDuration = ''0ms'', transitionDelay = [], overflow = ''hidden''\<rparr>] @
      (if didStart r then [] else [Emit IonStart]) @
      [Emit IonPull, StateSet Refreshing,
       DomWrite \<lparr>css_transform = (if pullMin r > 0 then TranslateY (pullMin r) else TranslateZ0),
                  transitionDuration = snapbackDuration r, transitionDelay = [], overflow = ''hidden''\<rparr>,
       Emit IonRefresh]"
  using assms
  by (simp_all add: onMove_pulling_def Let_def emit_sel setCss_sel set_state_sel beginRefresh_sel)

lemma onMove_pulling_not_a_number:
  assumes "deltaY d = None"
  shows "progress (snd (onMove_pulling d r)) = 0" and "state (snd (onMove_pulling d r)) = state r"
    and "trace (snd (onMove_pulling d r)) = trace r @
      [ScrollPrevented,
       DomWrite \<lparr>css_transform = TranslateZ0, transitionDuration = ''0ms'', transitionDelay = [],
                  overflow = ''hidden''\<rparr>]"
  using assms by (simp_all add: onMove_pulling_def Let_def setCss_sel)

lemma onMove_reaches_pulling:
  assumes "\<not> multitouch d" and "\<not> busy (state r)" and "\<not> not_above (deltaY d) 0"
    and "state r = Inactive \<longrightarrow> scrollTop \<le> 0"
  shows "onMove d scrollTop r =
           onMove_pulling d (if state r = Inactive then set_state Pulling r else r)"
  using assms by (auto simp: onMove_def)

lemma onMove_code_8: "fst (onMove d scrollTop r) = 8 \<Longrightarrow> deltaY d = None"
  by (auto simp: onMove_def onMove_pulling_code Let_def not_above_def split: if_splits option.splits)

text \<open>
  Claim C6 says that a move sample whose \<open>deltaY\<close> exceeds \<open>pullMin + pullDelta\<close> takes an
  engine that is not busy straight to Refreshing. Two guards of \<open>onMove\<close> come first. On
  a fresh component (not busy, thresholds 60 and 60) a first sample with \<open>deltaY = 200\<close>
  returns 7 and emits nothing when the host is scrolled by 5, and a sample with two
  touches returns 1 and changes nothing.
\<close>

theorem overshoot_stopped_by_guards:
  "\<not> busy (state initial_refresher)
   \<and> pullMin initial_refresher + pullDelta initial_refresher < 200
   \<and> fst (onMove \<lparr>touches = Some 1, deltaY = Some 200\<rparr> 5 initial_refresher) = 7
   \<and> state (snd (onMove \<lparr>touches = Some 1, deltaY = Some 200\<rparr> 5 initial_refresher)) = Inactive
   \<and> trace (snd (onMove \<lparr>touches = Some 1, deltaY = Some 200\<rparr> 5 initial_refresher)) = []
   \<and> fst (onMove \<lparr>touches = Some 2, deltaY = Some 200\<rparr> 0 initial_refresher) = 1
   \<and> snd (onMove \<lparr>touches = Some 2, deltaY = Some 200\<rparr> 0 initial_refresher) = initial_refresher"
  by (simp add: onMove_def multitouch_def busy_iff initial_refresher_sel not_above_def)

text \<open>
  Claim C6, amended. If a move sample with at most one touch has \<open>deltaY\<close> above
  \<open>pullMin + pullDelta\<close>, the thresholds are not negative, the engine is not busy and,
  when it is Inactive, the host's scroll offset is not above zero, then \<open>onMove\<close> returns 3
  and leaves the state Refreshing; what it adds to the trace ends with the one Refresh
  event it emits and holds no assignment of Ready to the state.
\<close>

theorem overshoot_begins_refresh:
  assumes "\<not> multitouch d" and "\<not> busy (state r)"
    and "state r = Inactive \<longrightarrow> scrollTop \<le> 0"
    and "0 \<le> pullMin r" and "0 \<le> pullDelta r"
    and "deltaY d = Some y" and "pullMin r + pullDelta r < y"
  shows "fst (onMove d scrollTop r) = 3
       \<and> state (snd (onMove d scrollTop r)) = Refreshing
       \<and> trace (snd (onMove d scrollTop r)) = trace r @
           (if state r = Inactive then [StateSet Pulling] else []) @
           [ScrollPrevented,
            DomWrite \<lparr>css_transform = TranslateY y, transitionDuration = ''0ms'',
                       transitionDelay = [], overflow = ''hidden''\<rparr>] @
           (if didStart r then [] else [Emit IonStart]) @
           [Emit IonPull, StateSet Refreshing,
            DomWrite \<lparr>css_transform = (if pullMin r > 0 then TranslateY (pullMin r) else TranslateZ0),
                       transitionDuration = snapbackDuration r, transitionDelay = [],
                       overflow = ''hidden''\<rparr>,
            Emit IonRefresh]
       \<and> count_list (drop (length (trace r)) (trace (snd (onMove d scrollTop r)))) (Emit IonRefresh) = 1
       \<and> StateSet Ready \<notin> set (drop (length (trace r)) (trace (snd (onMove d scrollTop r))))"
proof -
  define r0 where "r0 = (if state r = Inactive then set_state Pulling r else r)"
  from assms have pos: "0 < y" and nz: "y \<noteq> 0" and ge: "\<not> y < pullMin r"
    by linarith+
  from pos assms(6) have na: "\<not> not_above (deltaY d) 0" by (simp add: not_above_def)
  have om: "onMove d scrollTop r = onMove_pulling d r0"
    unfolding r0_def using assms(1,2) na assms(3) by (rule onMove_reaches_pulling)
  have r0: "pullMin r0 = pullMin r" "pullDelta r0 = pullDelta r" "didStart r0 = didStart r"
    "snapbackDuration r0 = snapbackDuration r"
    "trace r0 = trace r @ (if state r = Inactive then [StateSet Pulling] else [])"
    by (simp_all add: r0_def set_state_sel)
  have code: "fst (onMove d scrollTop r) = 3"
    using nz ge assms(6,7) by (simp add: om onMove_pulling_code r0)
  have st: "state (snd (onMove d scrollTop r)) = Refreshing"
    unfolding om using assms(6) nz ge assms(7)
    by (intro onMove_pulling_overshoot(1) [where y = y]) (simp_all add: r0)
  have tr: "trace (snd (onMove d scrollTop r)) = trace r @
           (if state r = Inactive then [StateSet Pulling] else []) @
           [ScrollPrevented,
            DomWrite \<lparr>css_transform = TranslateY y, transitionDuration = ''0ms'',
                       transitionDelay = [], overflow = ''hidden''\<rparr>] @
           (if didStart r then [] else [Emit IonStart]) @
           [Emit IonPull, StateSet Refreshing,
            DomWrite \<lparr>css_transform = (if pullMin r > 0 then TranslateY (pullMin r) else TranslateZ0),
                       transitionDuration = snapbackDuration r, transitionDelay = [],
                       overflow = ''hidden''\<rparr>,
            Emit IonRefresh]"
    unfolding om using assms(6) nz ge assms(7) pos
    by (subst onMove_pulling_overshoot(2) [where y = y]) (simp_all add: r0)
  show ?thesis
    unfolding tr using code st by simp
qed

theorem overshoot_begins_refresh_witness:
  "\<not> multitouch \<lparr>touches = Some 1, deltaY = Some 200\<rparr> \<and> \<not> busy (state initial_refresher)
   \<and> (0::real) \<le> 0
   \<and> 0 \<le> pullMin initial_refresher \<and> 0 \<le> pullDelta initial_refresher
   \<and> deltaY \<lparr>touches = Some 1, deltaY = Some 200\<rparr> = Some 200
   \<and> pullMin initial_refresher + pullDelta initial_refresher < 200
   \<and> fst (onMove \<lparr>touches = Some 1, deltaY = Some 200\<rparr> 0 initial_refresher) = 3
   \<and> state (snd (onMove \<lparr>touches = Some 1, deltaY = Some 200\<rparr> 0 initial_refresher)) = Refreshing
   \<and> trace (snd (onMove \<lparr>touches = Some 1, deltaY = Some 200\<rparr> 0 initial_refresher))
       = [StateSet Pulling, ScrollPrevented,
          DomWrite \<lparr>css_transform = TranslateY 200, transitionDuration = ''0ms'',
                     transitionDelay = [], overflow = ''hidden''\<rparr>,
          Emit IonStart, Emit IonPull, StateSet Refreshing,
          DomWrite \<lparr>css_transform = TranslateY 60, transitionDuration = ''280ms'',
                     transitionDelay = [], overflow = ''hidden''\<rparr>,
          Emit IonRefresh]"
  using overshoot_begins_refresh [where d = "\<lparr>touches = Some 1, deltaY = Some 200\<rparr>" and r = initial_refresher
      and scrollTop = 0 and y = 200]
  by (simp add: multitouch_def busy_iff initial_refresher_sel)

text \<open>
  Claim C10 says that every sample that passes the early return on \<open>deltaY <= 0\<close> has a
  positive \<open>deltaY\<close>, so that the branch on \<open>!deltaY\<close> is never taken. The sample is
  untyped (\<open>detail: any\<close>): for a \<open>deltaY\<close> that is \<open>NaN\<close> or absent the comparison
  \<open>deltaY <= 0\<close> is false and \<open>!deltaY\<close> is true. On a fresh component such a sample passes
  the early return, is not positive, and makes \<open>onMove\<close> return 8 with progress 0.
\<close>

theorem not_a_number_reaches_zero_branch:
  "\<not> multitouch \<lparr>touches = Some 1, deltaY = None\<rparr>
   \<and> \<not> busy (state initial_refresher)
   \<and> \<not> not_above (deltaY \<lparr>touches = Some 1, deltaY = None\<rparr>) 0
   \<and> \<not> positive (deltaY \<lparr>touches = Some 1, deltaY = None\<rparr>)
   \<and> fst (onMove \<lparr>touches = Some 1, deltaY = None\<rparr> 0 initial_refresher) = 8
   \<and> progress (snd (onMove \<lparr>touches = Some 1, deltaY = None\<rparr> 0 initial_refresher)) = 0
   \<and> state (snd (onMove \<lparr>touches = Some 1, deltaY = None\<rparr> 0 initial_refresher)) = Pulling"
  by (simp add: onMove_def multitouch_def busy_iff initial_refresher_sel not_above_def positive_def
      onMove_pulling_code onMove_pulling_not_a_number set_state_sel)

text \<open>
  Claim C10, amended. \<open>onMove\<close> returns 8, the result of the branch on \<open>!deltaY\<close>, only for
  a sample whose \<open>deltaY\<close> is \<open>NaN\<close> or absent, and for every such sample that passes the
  guards before it. That part of the handler taken alone returns 8 also for a zero
  \<open>deltaY\<close>, but a \<open>deltaY\<close> that is a number and passes the early return on
  \<open>deltaY <= 0\<close> is positive. Whenever the handler has assigned
  \<open>progress = deltaY / pullMin\<close> (it then returns 2, 3 or 4 from a state that is not
  busy), \<open>deltaY\<close> is a positive number, and for a positive \<open>pullMin\<close> so is the progress.
\<close>

theorem zero_branch_only_without_number:
  "(fst (onMove d scrollTop r) = 8 \<longrightarrow> deltaY d = None)
   \<and> (\<not> multitouch d \<and> \<not> busy (state r) \<and> (state r = Inactive \<longrightarrow> scrollTop \<le> 0) \<and> deltaY d = None \<longrightarrow>
        fst (onMove d scrollTop r) = 8 \<and> progress (snd (onMove d scrollTop r)) = 0)
   \<and> (fst (onMove_pulling d r) = 8 \<longleftrightarrow> deltaY d = None \<or> deltaY d = Some 0)
   \<and> (\<not> not_above (deltaY d) 0 \<and> deltaY d = Some y \<longrightarrow> 0 < y)
   \<and> (0 < pullMin r \<and> \<not> busy (state r) \<and> fst (onMove d scrollTop r) \<in> {2, 3, 4} \<longrightarrow>
        (case deltaY d of
           Some v \<Rightarrow> 0 < v \<and> progress (snd (onMove d scrollTop r)) = v / pullMin r
         | None \<Rightarrow> False)
      \<and> 0 < progress (snd (onMove d scrollTop r)))"
proof -
  have a: "fst (onMove d scrollTop r) = 8 \<longrightarrow> deltaY d = None"
    by (auto dest: onMove_code_8)
  have a': "fst (onMove d scrollTop r) = 8 \<and> progress (snd (onMove d scrollTop r)) = 0"
    if h: "\<not> multitouch d" "\<not> busy (state r)" "state r = Inactive \<longrightarrow> scrollTop \<le> 0" "deltaY d = None"
  proof -
    from h(4) have na: "\<not> not_above (deltaY d) 0" by (simp add: not_above_def)
    have om: "onMove d scrollTop r = onMove_pulling d (if state r = Inactive then set_state Pulling r else r)"
      using h(1,2) na h(3) by (rule onMove_reaches_pulling)
    show ?thesis
      using h(4) by (simp add: om onMove_pulling_code onMove_pulling_not_a_number)
  qed
  have b: "fst (onMove_pulling d r) = 8 \<longleftrightarrow> deltaY d = None \<or> deltaY d = Some 0"
    by (simp add: onMove_pulling_code split: option.split)
  have b': "\<not> not_above (deltaY d) 0 \<and> deltaY d = Some y \<longrightarrow> 0 < y"
    by (auto simp: not_above_def)
  have c: "(case deltaY d of
           Some v \<Rightarrow> 0 < v \<and> progress (snd (onMove d scrollTop r)) = v / pullMin r
         | None \<Rightarrow> False)
      \<and> 0 < progress (snd (onMove d scrollTop r))"
    if h: "0 < pullMin r" "\<not> busy (state r)" "fst (onMove d scrollTop r) \<in> {2, 3, 4}"
  proof -
    from h(2,3) have nm: "\<not> multitouch d" and na: "\<not> not_above (deltaY d) 0"
      and sc: "state r = Inactive \<longrightarrow> scrollTop \<le> 0"
      by (auto simp: onMove_def Let_def split: if_splits)
    have om: "onMove d scrollTop r = onMove_pulling d (if state r = Inactive then set_state Pulling r else r)"
      using nm h(2) na sc by (rule onMove_reaches_pulling)
    from h(3) obtain v where v: "deltaY d = Some v" "v \<noteq> 0"
      by (cases "deltaY d") (auto simp: om onMove_pulling_code split: if_splits)
    from na v have pos: "0 < v" by (simp add: not_above_def)
    have "progress (snd (onMove d scrollTop r)) = v / pullMin r"
      using v by (simp add: om onMove_pulling_progress set_state_sel)
    with pos h(1) v show ?thesis by simp
  qed
  from a a' b b' c show ?thesis by blast
qed

theorem zero_branch_only_without_number_witness:
  "0 < pullMin initial_refresher \<and> \<not> busy (state initial_refresher)
   \<and> \<not> not_above (deltaY \<lparr>touches = Some 1, deltaY = Some 30\<rparr>) 0
   \<and> fst (onMove \<lparr>touches = Some 1, deltaY = Some 30\<rparr> 0 initial_refresher) = 2
   \<and> progress (snd (onMove \<lparr>touches = Some 1, deltaY = Some 30\<rparr> 0 initial_refresher)) = 1 / 2
   \<and> \<not> multitouch \<lparr>touches = Some 1, deltaY = None\<rparr>
   \<and> fst (onMove \<lparr>touches = Some 1, deltaY = None\<rparr> 0 initial_refresher) = 8
   \<and> fst (onMove_pulling \<lparr>touches = Some 1, deltaY = Some 0\<rparr> initial_refresher) = 8"
  using zero_branch_only_without_number [where d = "\<lparr>touches = Some 1, deltaY = Some 30\<rparr>"
      and r = initial_refresher and scrollTop = 0 and y = 30]
    zero_branch_only_without_number [where d = "\<lparr>touches = Some 1, deltaY = None\<rparr>"
      and r = initial_refresher and scrollTop = 0]
    zero_branch_only_without_number [where d = "\<lparr>touches = Some 1, deltaY = Some 0\<rparr>"
      and r = initial_refresher and scrollTop = 0]
  by (simp add: busy_iff initial_refresher_sel onMove_def multitouch_def onMove_pulling_code
      set_state_sel not_above_def)

end
